theory Spec2Isabelle
  imports Complex_Main "HOL-Library.Sublist" "HOL-Library.AList"
begin

section \<open>Strings, truthiness and the pieces of the JavaScript library the extractor uses\<close>

text \<open>
  The media-query extractor is JavaScript. Its strings are modelled as \<^typ>\<open>string\<close>
  (code units below 256), its counters as \<^typ>\<open>nat\<close>, and the one quotient it
  computes (the mean number of properties per breakpoint) as an exact \<^typ>\<open>rat\<close>:
  the source computes it in double precision, which gives the same outcome as the exact
  quotient in every comparison and rounding made below as long as the counters stay far
  below \<open>2 ^ 53\<close>. Launching the browser and loading the page are outside the model: the
  extractor is given the page's origin and its stylesheets.
\<close>

text \<open>\<^verbatim>\<open>s.includes(t)\<close>: \<open>t\<close> occurs in \<open>s\<close> as a contiguous run.\<close>

fun str_includes :: "string \<Rightarrow> string \<Rightarrow> bool" where
  "str_includes [] t = (t = [])"
| "str_includes (c # cs) t = (prefix t (c # cs) \<or> str_includes cs t)"

text \<open>
  \<^verbatim>\<open>s.split(sep)\<close> for a non-empty separator: the occurrences of \<open>sep\<close> are
  taken from the left and do not overlap; \<open>cur\<close> is the piece being read.
\<close>

function split_from :: "string \<Rightarrow> string \<Rightarrow> string \<Rightarrow> string list" where
  "split_from sep cur s =
     (if s = [] then [cur]
      else if sep \<noteq> [] \<and> prefix sep s then cur # split_from sep [] (drop (length sep) s)
      else split_from sep (cur @ [hd s]) (tl s))"
  by pat_completeness auto
termination
  by (relation "measure (\<lambda>(sep, cur, s). length s)") auto

declare split_from.simps [simp del]

definition split_str :: "string \<Rightarrow> string \<Rightarrow> string list" where
  "split_str s sep = (if sep = [] then map (\<lambda>c. [c]) s else split_from sep [] s)"

text \<open>The regular-expression classes \<^verbatim>\<open>\s\<close> and \<^verbatim>\<open>\d\<close> on code units below 256.\<close>

definition is_space :: "char \<Rightarrow> bool" where
  "is_space c = (of_char c \<in> {9, 10, 11, 12, 13, 32, 160 :: nat})"

definition is_digit :: "char \<Rightarrow> bool" where
  "is_digit c = (48 \<le> (of_char c :: nat) \<and> (of_char c :: nat) \<le> 57)"

text \<open>
  One attempt of the pattern \<^verbatim>\<open>kw\s*(\d+)px\<close> at the start of \<open>s\<close>. The classes
  \<^verbatim>\<open>\s\<close>, \<^verbatim>\<open>\d\<close> and the letter \<open>p\<close> are disjoint, so backtracking never
  finds a match the greedy reading misses. The result is capture group 1.
\<close>

definition match_here :: "string \<Rightarrow> string \<Rightarrow> string option" where
  "match_here kw s =
     (if prefix kw s then
        (let r = dropWhile is_space (drop (length kw) s);
             ds = takeWhile is_digit r
         in if ds \<noteq> [] \<and> prefix ''px'' (dropWhile is_digit r) then Some ds else None)
      else None)"

text \<open>\<^verbatim>\<open>s.match(/kw\s*(\d+)px/)\<close>: the leftmost position where the pattern matches.\<close>

fun width_match :: "string \<Rightarrow> string \<Rightarrow> string option" where
  "width_match kw [] = match_here kw []"
| "width_match kw (c # cs) =
     (case match_here kw (c # cs) of
        Some ds \<Rightarrow> Some ds
      | None \<Rightarrow> width_match kw cs)"

text \<open>\<^verbatim>\<open>parseInt\<close> on a run of decimal digits.\<close>

definition digit_val :: "char \<Rightarrow> nat" where
  "digit_val c = of_char c - 48"

definition parseInt :: "string \<Rightarrow> nat" where
  "parseInt ds = foldl (\<lambda>n c. 10 * n + digit_val c) 0 ds"

text \<open>A number inside a template literal: its decimal digits.\<close>

fun string_of_nat :: "nat \<Rightarrow> string" where
  "string_of_nat n =
     (if n < 10 then [char_of (48 + n)]
      else string_of_nat (n div 10) @ [char_of (48 + n mod 10)])"

declare string_of_nat.simps [simp del]

text \<open>A string is truthy when it is present and not empty.\<close>

definition truthy_str :: "string option \<Rightarrow> bool" where
  "truthy_str f = (case f of None \<Rightarrow> False | Some s \<Rightarrow> s \<noteq> [])"

text \<open>A number is truthy when it is present and not zero.\<close>

definition truthy_num :: "nat option \<Rightarrow> bool" where
  "truthy_num b = (case b of None \<Rightarrow> False | Some n \<Rightarrow> n \<noteq> 0)"

section \<open>Data model\<close>

record style_rule =
  selector :: string
  properties :: "(string \<times> string) list"

text \<open>
  \<open>matchCount\<close> is absent on an extracted record; the filter stage adds it.
\<close>

record media_query =
  condition :: string
  rules :: "style_rule list"
  breakpoint :: "nat option"
  type :: "string option"
  matchCount :: "nat option"

record summary =
  totalMediaQueries :: nat
  uniqueBreakpoints :: "nat list"
  mostCommonBreakpoints :: "nat list"

record breakdown =
  breakpointCount :: nat
  propertyChangesPerBreakpoint :: int
  nestedQueries :: nat
  overlaps :: nat
  totalQueries :: nat

record problem_breakpoint =
  pb_breakpoint :: string
  propertyCount :: nat
  reason :: string

record analysis =
  score :: nat
  level :: string
  recommendation :: string
  breakdown :: breakdown
  problemBreakpoints :: "problem_breakpoint list"

record results =
  breakpoints :: "(string \<times> media_query list) list"
  mediaQueries :: "media_query list"
  summary :: summary
  complexity :: "analysis option"

section \<open>The complexity scorer\<close>

text \<open>The template literal \<^verbatim>\<open>`${mq.type}-${mq.breakpoint}`\<close>.\<close>

definition template_key :: "string option \<Rightarrow> nat option \<Rightarrow> string" where
  "template_key t b =
     (case t of None \<Rightarrow> ''null'' | Some s \<Rightarrow> s) @ ''-'' @
     (case b of None \<Rightarrow> ''null'' | Some n \<Rightarrow> string_of_nat n)"

definition bucket_key :: "media_query \<Rightarrow> string" where
  "bucket_key mq =
     (if truthy_num (breakpoint mq) then template_key (type mq) (breakpoint mq) else ''other'')"

definition breakpointScore :: "nat \<Rightarrow> nat" where
  "breakpointScore n =
     (if n = 0 then 0
      else if n \<le> 3 then 5
      else if n \<le> 5 then 10
      else if n \<le> 7 then 15
      else if n \<le> 10 then 20
      else 25)"

text \<open>
  The property pass of \<^verbatim>\<open>calculateComplexity\<close>: for every record the bucket of its
  key is created with count 0 when it is missing (or holds 0), then every rule adds its
  number of properties to the running total and to the bucket. The buckets are an object
  whose keys keep their insertion order. (The source also computes the largest bucket,
  which it never uses.)
\<close>

definition get_count :: "(string \<times> nat) list \<Rightarrow> string \<Rightarrow> nat" where
  "get_count counts key = (case map_of counts key of None \<Rightarrow> 0 | Some c \<Rightarrow> c)"

definition init_bucket :: "string \<Rightarrow> (string \<times> nat) list \<Rightarrow> (string \<times> nat) list" where
  "init_bucket key counts =
     (if get_count counts key = 0 then AList.update key 0 counts else counts)"

definition propCount :: "style_rule \<Rightarrow> nat" where
  "propCount rule = length (properties rule)"

definition add_rule :: "string \<Rightarrow> nat \<times> (string \<times> nat) list \<Rightarrow> style_rule
    \<Rightarrow> nat \<times> (string \<times> nat) list" where
  "add_rule key st rule =
     (fst st + propCount rule,
      AList.update key (get_count (snd st) key + propCount rule) (snd st))"

definition add_query :: "nat \<times> (string \<times> nat) list \<Rightarrow> media_query
    \<Rightarrow> nat \<times> (string \<times> nat) list" where
  "add_query st mq =
     foldl (add_rule (bucket_key mq)) (fst st, init_bucket (bucket_key mq) (snd st)) (rules mq)"

definition property_pass :: "media_query list \<Rightarrow> nat \<times> (string \<times> nat) list" where
  "property_pass mqs = foldl add_query (0, []) mqs"

definition totalProperties :: "results \<Rightarrow> nat" where
  "totalProperties d = fst (property_pass (mediaQueries d))"

definition breakpointPropertyCounts :: "results \<Rightarrow> (string \<times> nat) list" where
  "breakpointPropertyCounts d = snd (property_pass (mediaQueries d))"

definition avgPropertiesPerBreakpoint :: "results \<Rightarrow> rat" where
  "avgPropertiesPerBreakpoint d =
     (let breakpointCount = length (uniqueBreakpoints (summary d))
      in if breakpointCount > 0 then of_nat (totalProperties d) / of_nat breakpointCount else 0)"

text \<open>\<^verbatim>\<open>Math.round\<close>: the nearest integer, a half rounding up.\<close>

definition math_round :: "rat \<Rightarrow> int" where
  "math_round x = \<lfloor>x + 1 / 2\<rfloor>"

definition propertyScore :: "rat \<Rightarrow> nat" where
  "propertyScore avg =
     (if avg \<le> 5 then 5
      else if avg \<le> 15 then 12
      else if avg \<le> 30 then 20
      else 30)"

text \<open>
  The nesting pass makes two independent tests on every record, each of which increments
  the counter.
\<close>

definition combined_condition :: "string \<Rightarrow> bool" where
  "combined_condition c =
     (str_includes c '' and '' \<and> length (split_str c '' and '') > 2)"

definition feature_condition :: "string \<Rightarrow> bool" where
  "feature_condition c =
     list_ex (str_includes c)
       [''orientation'', ''resolution'', ''aspect-ratio'', ''hover'', ''pointer'']"

definition nested_step :: "nat \<Rightarrow> media_query \<Rightarrow> nat" where
  "nested_step n mq =
     (let n1 = (if combined_condition (condition mq) then n + 1 else n)
      in if feature_condition (condition mq) then n1 + 1 else n1)"

definition nestedOrCombinedCount :: "results \<Rightarrow> nat" where
  "nestedOrCombinedCount d = foldl nested_step 0 (mediaQueries d)"

definition nestedScore :: "nat \<Rightarrow> nat" where
  "nestedScore n =
     (if n = 0 then 0
      else if n \<le> 2 then 5
      else if n \<le> 5 then 12
      else 20)"

text \<open>
  The overlap pass: the breakpoints of the records of one type whose breakpoint is truthy,
  then the number of (min-width, max-width) pairs at most one pixel apart.
\<close>

definition widths_of :: "string \<Rightarrow> media_query list \<Rightarrow> nat list" where
  "widths_of t mqs =
     map (\<lambda>mq. case breakpoint mq of None \<Rightarrow> 0 | Some b \<Rightarrow> b)
       (filter (\<lambda>mq. type mq = Some t \<and> truthy_num (breakpoint mq)) mqs)"

definition overlapCount :: "results \<Rightarrow> nat" where
  "overlapCount d =
     (let minWidths = widths_of ''min-width'' (mediaQueries d);
          maxWidths = widths_of ''max-width'' (mediaQueries d)
      in foldl (\<lambda>n mn. foldl (\<lambda>n mx. if \<bar>int mn - int mx\<bar> \<le> 1 then n + 1 else n) n maxWidths)
           0 minWidths)"

definition overlapScore :: "nat \<Rightarrow> nat" where
  "overlapScore n =
     (if n = 0 then 0
      else if n \<le> 2 then 5
      else if n \<le> 5 then 10
      else 15)"

definition queryCountScore :: "nat \<Rightarrow> nat" where
  "queryCountScore n =
     (if n \<le> 10 then 2
      else if n \<le> 25 then 5
      else if n \<le> 50 then 7
      else 10)"

definition level_of :: "nat \<Rightarrow> string \<times> string" where
  "level_of s =
     (if s \<le> 20 then
        (''Simple'',
         ''Use basic responsive analyzer. Site has straightforward breakpoint behavior.'')
      else if s \<le> 40 then
        (''Moderate'',
         ''Use standard responsive analysis tools. Site has typical mobile-first or desktop-first patterns.'')
      else if s \<le> 60 then
        (''Complex'',
         ''Use comprehensive multi-viewport analysis. Site has intricate responsive behavior.'')
      else if s \<le> 80 then
        (''Very Complex'',
         ''Use comprehensive analyzer with detailed breakpoint analysis. Consider iterative refinement approach.'')
      else
        (''Extremely Complex'',
         ''Site has highly complex responsive patterns. Recommend component-by-component analysis with positioning calculator.''))"

definition is_problem :: "rat \<Rightarrow> string \<times> nat \<Rightarrow> bool" where
  "is_problem avg e = (of_nat (snd e) > avg * (3 / 2) \<and> snd e > 20)"

definition problem_entry :: "string \<times> nat \<Rightarrow> problem_breakpoint" where
  "problem_entry e =
     \<lparr>pb_breakpoint = fst e, propertyCount = snd e,
      reason = ''High number of property changes - may indicate major layout shift''\<rparr>"

definition calculateComplexity :: "results \<Rightarrow> analysis" where
  "calculateComplexity d =
     (let breakpointCount = length (uniqueBreakpoints (summary d));
          avg = avgPropertiesPerBreakpoint d;
          nested = nestedOrCombinedCount d;
          overlap = overlapCount d;
          total = totalMediaQueries (summary d);
          sc = breakpointScore breakpointCount + propertyScore avg + nestedScore nested
                 + overlapScore overlap + queryCountScore total
      in \<lparr>score = sc,
          level = fst (level_of sc),
          recommendation = snd (level_of sc),
          breakdown =
            \<lparr>breakpointCount = breakpointCount,
             propertyChangesPerBreakpoint = math_round avg,
             nestedQueries = nested,
             overlaps = overlap,
             totalQueries = total\<rparr>,
          problemBreakpoints =
            map problem_entry (filter (is_problem avg) (breakpointPropertyCounts d))\<rparr>)"

section \<open>The stylesheet model and the extractor\<close>

text \<open>
  The page is seen through its stylesheets. A rule is a style rule (selector and
  declaration block), a media rule (condition text and nested rules) or any other kind.
  The declaration block is the list of its property names with the value
  \<^verbatim>\<open>getPropertyValue\<close> returns for each.
\<close>

datatype css_rule =
    StyleRule string "(string \<times> string) list"
  | MediaRule string "css_rule list"
  | OtherRule

text \<open>
  Reading the rule list of a stylesheet throws on a cross-origin sheet, may give nothing,
  or gives the rules.
\<close>

datatype rules_access = Throws string | Absent | RuleList "css_rule list"

record stylesheet =
  href :: "string option"
  cssRules :: rules_access
  legacy_rules :: rules_access

datatype error = AccessError string

definition getPropertyValue :: "(string \<times> string) list \<Rightarrow> string \<Rightarrow> string" where
  "getPropertyValue style prop = (case map_of style prop of None \<Rightarrow> [] | Some v \<Rightarrow> v)"

definition read_properties :: "(string \<times> string) list \<Rightarrow> (string \<times> string) list" where
  "read_properties style =
     foldl (\<lambda>props prop. AList.update prop (getPropertyValue style prop) props) []
       (map fst style)"

fun inner_rule_step :: "style_rule list \<Rightarrow> css_rule \<Rightarrow> style_rule list" where
  "inner_rule_step rs (StyleRule sel style) =
     rs @ [\<lparr>selector = sel, properties = read_properties style\<rparr>]"
| "inner_rule_step rs (MediaRule t inner) = rs"
| "inner_rule_step rs OtherRule = rs"

definition parse_media_rule :: "string \<Rightarrow> css_rule list \<Rightarrow> media_query" where
  "parse_media_rule mediaText inner =
     (let mq = \<lparr>condition = mediaText, rules = [], breakpoint = None, type = None,
                matchCount = None\<rparr>;
          mq1 =
            (case width_match ''min-width:'' mediaText of
               Some ds \<Rightarrow> mq\<lparr>breakpoint := Some (parseInt ds), type := Some ''min-width''\<rparr>
             | None \<Rightarrow>
                 (case width_match ''max-width:'' mediaText of
                    Some ds \<Rightarrow> mq\<lparr>breakpoint := Some (parseInt ds), type := Some ''max-width''\<rparr>
                  | None \<Rightarrow> mq))
      in mq1\<lparr>rules := foldl inner_rule_step [] inner\<rparr>)"

text \<open>
  \<^verbatim>\<open>Set.add\<close> on a set kept in insertion order, and the read of a bucket of the
  breakpoint map (the source reads a bucket only after creating it).
\<close>

definition set_add :: "nat \<Rightarrow> nat list \<Rightarrow> nat list" where
  "set_add x xs = (if x \<in> set xs then xs else xs @ [x])"

definition get_bucket :: "(string \<times> media_query list) list \<Rightarrow> string \<Rightarrow> media_query list" where
  "get_bucket bps key = (case map_of bps key of None \<Rightarrow> [] | Some ms \<Rightarrow> ms)"

text \<open>Grouping by breakpoint: guarded by the truthiness of the breakpoint.\<close>

definition group_by_breakpoint :: "media_query \<Rightarrow> (string \<times> media_query list) list
    \<Rightarrow> (string \<times> media_query list) list" where
  "group_by_breakpoint mq bps =
     (if truthy_num (breakpoint mq) then
        (let key = template_key (type mq) (breakpoint mq);
             bps1 = (if map_of bps key = None then AList.update key [] bps else bps)
         in AList.update key (get_bucket bps1 key @ [mq]) bps1)
      else bps)"

fun rule_step :: "results \<Rightarrow> css_rule \<Rightarrow> results" where
  "rule_step r (MediaRule mediaText inner) =
     (let mq = parse_media_rule mediaText inner;
          seen = (case breakpoint mq of
                    None \<Rightarrow> uniqueBreakpoints (summary r)
                  | Some b \<Rightarrow> set_add b (uniqueBreakpoints (summary r)))
      in r\<lparr>summary := (summary r)\<lparr>totalMediaQueries := totalMediaQueries (summary r) + 1,
                                   uniqueBreakpoints := seen\<rparr>,
           mediaQueries := mediaQueries r @ [mq],
           breakpoints := group_by_breakpoint mq (breakpoints r)\<rparr>)"
| "rule_step r (StyleRule sel style) = r"
| "rule_step r OtherRule = r"

text \<open>\<^verbatim>\<open>sheet.cssRules || sheet.rules\<close>; either read may throw.\<close>

definition read_rules :: "stylesheet \<Rightarrow> error + css_rule list option" where
  "read_rules sheet =
     (case cssRules sheet of
        Throws m \<Rightarrow> Inl (AccessError m)
      | RuleList rs \<Rightarrow> Inr (Some rs)
      | Absent \<Rightarrow>
          (case legacy_rules sheet of
             Throws m \<Rightarrow> Inl (AccessError m)
           | RuleList rs \<Rightarrow> Inr (Some rs)
           | Absent \<Rightarrow> Inr None))"

text \<open>
  The body of the \<^verbatim>\<open>try\<close> block for one stylesheet: a sheet whose address does not
  start with the page's origin is passed over, then the rules are read (the only step
  that can throw, before anything is recorded) and walked.
\<close>

definition sheet_body :: "string \<Rightarrow> results \<Rightarrow> stylesheet \<Rightarrow> error + results" where
  "sheet_body origin r sheet =
     (if truthy_str (href sheet) \<and>
         \<not> prefix origin (case href sheet of None \<Rightarrow> [] | Some h \<Rightarrow> h)
      then Inr r
      else (case read_rules sheet of
              Inl e \<Rightarrow> Inl e
            | Inr None \<Rightarrow> Inr r
            | Inr (Some rs) \<Rightarrow> Inr (foldl rule_step r rs)))"

text \<open>The \<^verbatim>\<open>catch\<close> clause logs a warning in the page and goes on.\<close>

definition try_sheet :: "string \<Rightarrow> results \<Rightarrow> stylesheet \<Rightarrow> error + results" where
  "try_sheet origin r sheet =
     (case sheet_body origin r sheet of Inl e \<Rightarrow> Inr r | Inr r1 \<Rightarrow> Inr r1)"

fun sheets_loop :: "string \<Rightarrow> results \<Rightarrow> stylesheet list \<Rightarrow> error + results" where
  "sheets_loop origin r [] = Inr r"
| "sheets_loop origin r (sheet # sheets) =
     (case try_sheet origin r sheet of
        Inl e \<Rightarrow> Inl e
      | Inr r1 \<Rightarrow> sheets_loop origin r1 sheets)"

definition empty_results :: results where
  "empty_results =
     \<lparr>breakpoints = [], mediaQueries = [],
      summary = \<lparr>totalMediaQueries = 0, uniqueBreakpoints = [], mostCommonBreakpoints = []\<rparr>,
      complexity = None\<rparr>"

text \<open>The function evaluated in the page; the set of breakpoints leaves it sorted.\<close>

definition page_evaluate :: "string \<Rightarrow> stylesheet list \<Rightarrow> error + results" where
  "page_evaluate origin sheets =
     (case sheets_loop origin empty_results sheets of
        Inl e \<Rightarrow> Inl e
      | Inr r \<Rightarrow>
          Inr (r\<lparr>summary := (summary r)\<lparr>uniqueBreakpoints := sort (uniqueBreakpoints (summary r))\<rparr>\<rparr>))"

definition extractMediaQueries :: "string \<Rightarrow> stylesheet list \<Rightarrow> error + results" where
  "extractMediaQueries origin sheets =
     (case page_evaluate origin sheets of
        Inl e \<Rightarrow> Inl e
      | Inr d \<Rightarrow> Inr (d\<lparr>complexity := Some (calculateComplexity d)\<rparr>))"

section \<open>The filter stage\<close>

definition rule_matches :: "string option \<Rightarrow> string option \<Rightarrow> style_rule \<Rightarrow> bool" where
  "rule_matches propertyFilter selectorFilter rule =
     (let matchesProperty =
            (case propertyFilter of
               None \<Rightarrow> True
             | Some pf \<Rightarrow>
                 if pf = [] then True
                 else list_ex (\<lambda>prop. str_includes prop pf \<or> str_includes pf prop)
                        (map fst (properties rule)));
          matchesSelector =
            (case selectorFilter of
               None \<Rightarrow> True
             | Some sf \<Rightarrow> if sf = [] then True else str_includes (selector rule) sf)
      in matchesProperty \<and> matchesSelector)"

definition filter_query :: "string option \<Rightarrow> string option \<Rightarrow> media_query \<Rightarrow> media_query" where
  "filter_query propertyFilter selectorFilter mq =
     (let filteredRules = filter (rule_matches propertyFilter selectorFilter) (rules mq)
      in mq\<lparr>rules := filteredRules, matchCount := Some (length filteredRules)\<rparr>)"

definition applyFilters :: "string option \<Rightarrow> string option \<Rightarrow> results \<Rightarrow> results" where
  "applyFilters propertyFilter selectorFilter d =
     (if \<not> truthy_str propertyFilter \<and> \<not> truthy_str selectorFilter then d
      else d\<lparr>mediaQueries :=
               filter (\<lambda>mq. length (rules mq) > 0)
                 (map (filter_query propertyFilter selectorFilter) (mediaQueries d))\<rparr>)"

section \<open>Notions used to state the properties\<close>

text \<open>The number of properties a record declares, over all its rules.\<close>

definition query_props :: "media_query \<Rightarrow> nat" where
  "query_props mq = sum_list (map propCount (rules mq))"

text \<open>The pixel values of the records that carry a breakpoint, in record order.\<close>

definition breakpoint_values :: "media_query list \<Rightarrow> nat list" where
  "breakpoint_values mqs = List.map_filter breakpoint mqs"

text \<open>The \<open>(type, breakpoint)\<close> pairs of the records that carry a breakpoint.\<close>

definition breakpoint_pairs :: "media_query list \<Rightarrow> (string option \<times> nat option) list" where
  "breakpoint_pairs mqs =
     map (\<lambda>mq. (type mq, breakpoint mq)) (filter (\<lambda>mq. breakpoint mq \<noteq> None) mqs)"

text \<open>The records pooled under the key \<open>other\<close>, and the properties they declare.\<close>

definition other_queries :: "results \<Rightarrow> media_query list" where
  "other_queries d = filter (\<lambda>mq. bucket_key mq = ''other'') (mediaQueries d)"

definition other_props :: "results \<Rightarrow> nat" where
  "other_props d = sum_list (map query_props (other_queries d))"

text \<open>A record that is combined, or names one of the five media features.\<close>

definition nested_or_feature :: "media_query \<Rightarrow> bool" where
  "nested_or_feature mq =
     (combined_condition (condition mq) \<or> feature_condition (condition mq))"

text \<open>
  The records a stylesheet contributes: one per media rule, in rule order, when the sheet
  belongs to the page's origin and its rules can be read, and none otherwise.
\<close>

fun rule_records :: "css_rule \<Rightarrow> media_query list" where
  "rule_records (MediaRule mediaText inner) = [parse_media_rule mediaText inner]"
| "rule_records (StyleRule sel style) = []"
| "rule_records OtherRule = []"

definition sheet_records :: "string \<Rightarrow> stylesheet \<Rightarrow> media_query list" where
  "sheet_records origin sheet =
     (if truthy_str (href sheet) \<and>
         \<not> prefix origin (case href sheet of None \<Rightarrow> [] | Some h \<Rightarrow> h)
      then []
      else (case read_rules sheet of
              Inl e \<Rightarrow> []
            | Inr None \<Rightarrow> []
            | Inr (Some rs) \<Rightarrow> concat (map rule_records rs)))"

definition well_classified :: "media_query \<Rightarrow> bool" where
  "well_classified mq =
     ((breakpoint mq = None) = (type mq = None) \<and>
      (type mq = None \<or> type mq = Some ''min-width'' \<or> type mq = Some ''max-width''))"

definition unique_inv :: "results \<Rightarrow> bool" where
  "unique_inv r =
     (distinct (uniqueBreakpoints (summary r)) \<and>
      set (uniqueBreakpoints (summary r)) = set (breakpoint_values (mediaQueries r)))"

text \<open>The level the fixed score bands give.\<close>

definition band_level :: "nat \<Rightarrow> string" where
  "band_level s =
     (if s \<le> 20 then ''Simple''
      else if 21 \<le> s \<and> s \<le> 40 then ''Moderate''
      else if 41 \<le> s \<and> s \<le> 60 then ''Complex''
      else if 61 \<le> s \<and> s \<le> 80 then ''Very Complex''
      else ''Extremely Complex'')"

subsection \<open>Example pages\<close>

definition example_origin :: string where
  "example_origin = ''https://example.com''"

definition inline_sheet :: "css_rule list \<Rightarrow> stylesheet" where
  "inline_sheet rs = \<lparr>href = None, cssRules = RuleList rs, legacy_rules = Absent\<rparr>"

definition blocked_sheet :: stylesheet where
  "blocked_sheet =
     \<lparr>href = Some ''https://example.com/theme.css'',
      cssRules = Throws ''Cannot access rules'', legacy_rules = Absent\<rparr>"

definition navbar_sheet :: stylesheet where
  "navbar_sheet =
     inline_sheet
       [MediaRule ''screen and (max-width: 768px)''
          [StyleRule ''.navbar'' [(''flex-direction'', ''column'')]]]"

definition same_pixel_sheet :: stylesheet where
  "same_pixel_sheet =
     inline_sheet [MediaRule ''(min-width: 768px)'' [], MediaRule ''(max-width: 768px)'' []]"

definition same_pixel_data :: results where
  "same_pixel_data =
     \<lparr>breakpoints =
        [(''min-width-768'',
          [\<lparr>condition = ''(min-width: 768px)'', rules = [], breakpoint = Some 768,
            type = Some ''min-width'', matchCount = None\<rparr>]),
         (''max-width-768'',
          [\<lparr>condition = ''(max-width: 768px)'', rules = [], breakpoint = Some 768,
            type = Some ''max-width'', matchCount = None\<rparr>])],
      mediaQueries =
        [\<lparr>condition = ''(min-width: 768px)'', rules = [], breakpoint = Some 768,
          type = Some ''min-width'', matchCount = None\<rparr>,
         \<lparr>condition = ''(max-width: 768px)'', rules = [], breakpoint = Some 768,
          type = Some ''max-width'', matchCount = None\<rparr>],
      summary =
        \<lparr>totalMediaQueries = 2, uniqueBreakpoints = [768], mostCommonBreakpoints = []\<rparr>,
      complexity = None\<rparr>"

definition landscape_sheet :: stylesheet where
  "landscape_sheet =
     inline_sheet
       [MediaRule ''screen and (min-width: 768px) and (orientation: landscape)'' []]"

definition landscape_data :: results where
  "landscape_data =
     \<lparr>breakpoints =
        [(''min-width-768'',
          [\<lparr>condition = ''screen and (min-width: 768px) and (orientation: landscape)'',
            rules = [], breakpoint = Some 768, type = Some ''min-width'',
            matchCount = None\<rparr>])],
      mediaQueries =
        [\<lparr>condition = ''screen and (min-width: 768px) and (orientation: landscape)'',
          rules = [], breakpoint = Some 768, type = Some ''min-width'', matchCount = None\<rparr>],
      summary =
        \<lparr>totalMediaQueries = 1, uniqueBreakpoints = [768], mostCommonBreakpoints = []\<rparr>,
      complexity = None\<rparr>"

definition zero_sheet :: stylesheet where
  "zero_sheet = inline_sheet [MediaRule ''(min-width: 0px)'' []]"

definition zero_query :: media_query where
  "zero_query =
     \<lparr>condition = ''(min-width: 0px)'', rules = [], breakpoint = Some 0,
      type = Some ''min-width'', matchCount = None\<rparr>"

definition seven_props :: "(string \<times> string) list" where
  "seven_props =
     [(''color'', ''black''), (''margin'', ''0''), (''padding'', ''0''), (''width'', ''100%''),
      (''height'', ''auto''), (''display'', ''block''), (''float'', ''none'')]"

definition print_sheet :: stylesheet where
  "print_sheet =
     inline_sheet
       [MediaRule ''print''
          [StyleRule ''.header'' seven_props, StyleRule ''.main'' seven_props,
           StyleRule ''.footer'' seven_props],
        MediaRule ''(min-width: 768px)'' [StyleRule ''.main'' [(''color'', ''red'')]],
        MediaRule ''(max-width: 1024px)'' []]"

definition print_query :: media_query where
  "print_query =
     \<lparr>condition = ''print'',
      rules =
        [\<lparr>selector = ''.header'', properties = seven_props\<rparr>,
         \<lparr>selector = ''.main'', properties = seven_props\<rparr>,
         \<lparr>selector = ''.footer'', properties = seven_props\<rparr>],
      breakpoint = None, type = None, matchCount = None\<rparr>"

definition print_data :: results where
  "print_data =
     (case page_evaluate example_origin [print_sheet] of
        Inl e \<Rightarrow> empty_results
      | Inr d \<Rightarrow> d)"

definition navbar_query :: media_query where
  "navbar_query =
     \<lparr>condition = ''screen and (max-width: 768px)'',
      rules = [\<lparr>selector = ''.navbar'', properties = [(''flex-direction'', ''column'')]\<rparr>],
      breakpoint = Some 768, type = Some ''max-width'', matchCount = None\<rparr>"

definition navbar_data :: results where
  "navbar_data =
     (case extractMediaQueries example_origin [navbar_sheet] of
        Inl e \<Rightarrow> empty_results
      | Inr d \<Rightarrow> d)"

section \<open>Properties of the scorer\<close>

lemmas score_defs =
  breakpointScore_def propertyScore_def nestedScore_def overlapScore_def queryCountScore_def

lemma math_round_0: "math_round 0 = 0"
  unfolding math_round_def by (simp add: floor_eq_iff)

text \<open>
  Claim C1, as amended. On a record list with no media queries and no breakpoints the
  scorer returns without failing: the level is Simple, the five fields of the breakdown
  are zero and no problem breakpoint is listed. The score is 7, not 0: the lowest band of
  the property-density sub-score is worth 5 points and the lowest band of the
  query-volume sub-score 2 points.
\<close>

theorem calculateComplexity_empty:
  assumes "mediaQueries d = []"
    and "uniqueBreakpoints (summary d) = []"
    and "totalMediaQueries (summary d) = 0"
  shows "calculateComplexity d =
     \<lparr>score = 7, level = ''Simple'',
      recommendation =
        ''Use basic responsive analyzer. Site has straightforward breakpoint behavior.'',
      breakdown =
        \<lparr>breakpointCount = 0, propertyChangesPerBreakpoint = 0, nestedQueries = 0,
         overlaps = 0, totalQueries = 0\<rparr>,
      problemBreakpoints = []\<rparr>"
  using assms
  by (simp add: calculateComplexity_def avgPropertiesPerBreakpoint_def score_defs level_of_def
      nestedOrCombinedCount_def overlapCount_def widths_of_def math_round_0
      breakpointPropertyCounts_def property_pass_def)

theorem calculateComplexity_empty_witness:
  "mediaQueries empty_results = [] \<and>
   uniqueBreakpoints (summary empty_results) = [] \<and>
   totalMediaQueries (summary empty_results) = 0 \<and>
   calculateComplexity empty_results =
     \<lparr>score = 7, level = ''Simple'',
      recommendation =
        ''Use basic responsive analyzer. Site has straightforward breakpoint behavior.'',
      breakdown =
        \<lparr>breakpointCount = 0, propertyChangesPerBreakpoint = 0, nestedQueries = 0,
         overlaps = 0, totalQueries = 0\<rparr>,
      problemBreakpoints = []\<rparr>"
proof -
  have h: "mediaQueries empty_results = []"
    "uniqueBreakpoints (summary empty_results) = []"
    "totalMediaQueries (summary empty_results) = 0"
    by (simp_all add: empty_results_def)
  from calculateComplexity_empty [OF h] h show ?thesis by simp
qed

text \<open>
  Claim C1 as stated fails on the empty extraction result: the score is not 0.
\<close>

theorem empty_score_counterexample:
  "\<not> (score (calculateComplexity empty_results) = 0 \<and>
      level (calculateComplexity empty_results) = ''Simple'' \<and>
      breakdown (calculateComplexity empty_results) =
        \<lparr>breakpointCount = 0, propertyChangesPerBreakpoint = 0, nestedQueries = 0,
         overlaps = 0, totalQueries = 0\<rparr> \<and>
      problemBreakpoints (calculateComplexity empty_results) = [])"
  by (simp add: calculateComplexity_def avgPropertiesPerBreakpoint_def score_defs
      empty_results_def nestedOrCombinedCount_def overlapCount_def widths_of_def)

text \<open>
  Claim C9. Whatever the input, the score is at least 7: the property-density sub-score
  is never below 5 and the query-volume sub-score never below 2.
\<close>

theorem score_at_least_seven:
  "7 \<le> score (calculateComplexity d) \<and> 5 \<le> propertyScore avg \<and> 2 \<le> queryCountScore n"
  by (simp add: calculateComplexity_def Let_def propertyScore_def queryCountScore_def)

text \<open>
  Claim C5. The level the scorer returns is the one the fixed bands give for the score it
  returns: at most 20 Simple, 21 to 40 Moderate, 41 to 60 Complex, 61 to 80 Very Complex,
  above 80 Extremely Complex.
\<close>

theorem level_matches_band:
  "level (calculateComplexity d) = band_level (score (calculateComplexity d))"
  by (simp add: calculateComplexity_def Let_def level_of_def band_level_def)

lemma nested_foldl:
  "foldl nested_step n mqs =
     n + length (filter (\<lambda>mq. combined_condition (condition mq)) mqs)
       + length (filter (\<lambda>mq. feature_condition (condition mq)) mqs)"
  by (induction mqs arbitrary: n) (simp_all add: nested_step_def Let_def)

text \<open>
  Claim C3, as amended. The field \<open>nestedQueries\<close> is the number of records whose
  condition has more than two and-joined clauses plus the number of records whose
  condition names an orientation, resolution, aspect-ratio, hover or pointer feature: a
  record that does both counts twice.
\<close>

theorem nestedQueries_counts_both:
  "nestedQueries (breakdown (calculateComplexity d)) =
     length (filter (\<lambda>mq. combined_condition (condition mq)) (mediaQueries d))
       + length (filter (\<lambda>mq. feature_condition (condition mq)) (mediaQueries d))"
  by (simp add: calculateComplexity_def Let_def nestedOrCombinedCount_def nested_foldl)

text \<open>
  Claim C3 as stated fails on the page whose one media rule is
  \<^verbatim>\<open>screen and (min-width: 768px) and (orientation: landscape)\<close>: one record
  satisfies the description, and the field is 2.
\<close>

theorem nestedQueries_counterexample:
  "page_evaluate example_origin [landscape_sheet] = Inr landscape_data \<and>
   length (filter nested_or_feature (mediaQueries landscape_data)) = 1 \<and>
   nestedQueries (breakdown (calculateComplexity landscape_data)) = 2"
  by code_simp

section \<open>Properties of the filter stage\<close>

lemma filter_query_idem:
  "filter_query p s (filter_query p s mq) = filter_query p s mq"
  by (simp add: filter_query_def Let_def)

lemma filter_queries_idem:
  "filter (\<lambda>mq. rules mq \<noteq> []) (map (filter_query p s)
      (filter (\<lambda>mq. rules mq \<noteq> []) (map (filter_query p s) mqs)))
   = filter (\<lambda>mq. rules mq \<noteq> []) (map (filter_query p s) mqs)"
  by (induction mqs) (simp_all add: filter_query_idem)

text \<open>
  Claim C6. Filtering is idempotent: with the same property and selector filters, each
  present or absent, filtering the filtered data changes nothing.
\<close>

theorem applyFilters_idempotent:
  "applyFilters p s (applyFilters p s d) = applyFilters p s d"
  by (simp add: applyFilters_def filter_queries_idem)

section \<open>Properties of the extractor\<close>

subsection \<open>The loop over the stylesheets never fails\<close>

lemma try_sheet_Inr: "\<exists>r1. try_sheet origin r sheet = Inr r1"
  by (simp add: try_sheet_def split: sum.split)

lemma sheets_loop_total: "\<exists>r1. sheets_loop origin r sheets = Inr r1"
proof (induction sheets arbitrary: r)
  case Nil
  show ?case by simp
next
  case (Cons sheet sheets)
  obtain r1 where "try_sheet origin r sheet = Inr r1"
    using try_sheet_Inr by blast
  then show ?case using Cons.IH [of r1] by simp
qed

lemma try_sheet_throws: "isl (read_rules sheet) \<Longrightarrow> try_sheet origin r sheet = Inr r"
  by (auto simp: try_sheet_def sheet_body_def isl_def)

lemma sheets_loop_skip:
  "sheets_loop origin r sheets =
     sheets_loop origin r (filter (\<lambda>sheet. \<not> isl (read_rules sheet)) sheets)"
proof (induction sheets arbitrary: r)
  case Nil
  show ?case by simp
next
  case (Cons sheet sheets)
  show ?case
  proof (cases "isl (read_rules sheet)")
    case True
    then show ?thesis using Cons.IH by (simp add: try_sheet_throws)
  next
    case False
    obtain r1 where "try_sheet origin r sheet = Inr r1"
      using try_sheet_Inr by blast
    then show ?thesis using False Cons.IH by simp
  qed
qed

lemma rule_step_records:
  "mediaQueries (rule_step r rule) = mediaQueries r @ rule_records rule"
  by (cases rule) (simp_all add: Let_def)

lemma rule_step_total:
  "totalMediaQueries (summary (rule_step r rule)) =
     totalMediaQueries (summary r) + length (rule_records rule)"
  by (cases rule) (simp_all add: Let_def)

lemma foldl_rule_step_records:
  "mediaQueries (foldl rule_step r rs) = mediaQueries r @ concat (map rule_records rs)"
  by (induction rs arbitrary: r) (simp_all add: rule_step_records)

lemma foldl_rule_step_total:
  "totalMediaQueries (summary (foldl rule_step r rs)) =
     totalMediaQueries (summary r) + length (concat (map rule_records rs))"
  by (induction rs arbitrary: r) (simp_all add: rule_step_total)

lemma try_sheet_records:
  "try_sheet origin r sheet = Inr r1 \<Longrightarrow>
   mediaQueries r1 = mediaQueries r @ sheet_records origin sheet \<and>
   totalMediaQueries (summary r1) =
     totalMediaQueries (summary r) + length (sheet_records origin sheet)"
  by (auto simp: try_sheet_def sheet_body_def sheet_records_def foldl_rule_step_records
      foldl_rule_step_total split: sum.splits if_splits option.splits)

lemma sheets_loop_records:
  "sheets_loop origin r sheets = Inr r1 \<Longrightarrow>
   mediaQueries r1 = mediaQueries r @ concat (map (sheet_records origin) sheets) \<and>
   totalMediaQueries (summary r1) =
     totalMediaQueries (summary r) + length (concat (map (sheet_records origin) sheets))"
proof (induction sheets arbitrary: r)
  case Nil
  then show ?case by simp
next
  case (Cons sheet sheets)
  obtain r2 where r2: "try_sheet origin r sheet = Inr r2"
    using try_sheet_Inr by blast
  have rest: "sheets_loop origin r2 sheets = Inr r1"
    using Cons.prems r2 by simp
  from Cons.IH [OF rest] try_sheet_records [OF r2] show ?case
    by simp
qed

lemma sheet_records_throws: "isl (read_rules sheet) \<Longrightarrow> sheet_records origin sheet = []"
  by (auto simp: sheet_records_def isl_def)

lemma readable_records:
  "concat (map (sheet_records origin) (filter (\<lambda>sheet. \<not> isl (read_rules sheet)) sheets)) =
   concat (map (sheet_records origin) sheets)"
  by (induction sheets) (simp_all add: sheet_records_throws)

text \<open>
  Claim C8. A stylesheet whose rules cannot be read is skipped and the walk goes on:
  extraction returns a result (no error reaches the caller), the records of that result
  are those of the stylesheets that can be read, sheet after sheet in the order of the
  page, the total counts them, and the result is the one extraction gives when the
  unreadable stylesheets are left out of the page.
\<close>

theorem inaccessible_sheets_skipped:
  "\<exists>d. extractMediaQueries origin sheets = Inr d \<and>
       mediaQueries d =
         concat (map (sheet_records origin)
           (filter (\<lambda>sheet. \<not> isl (read_rules sheet)) sheets)) \<and>
       totalMediaQueries (summary d) = length (mediaQueries d) \<and>
       extractMediaQueries origin (filter (\<lambda>sheet. \<not> isl (read_rules sheet)) sheets) = Inr d"
proof -
  obtain r where r: "sheets_loop origin empty_results sheets = Inr r"
    using sheets_loop_total by blast
  let ?d0 = "r\<lparr>summary := (summary r)\<lparr>uniqueBreakpoints := sort (uniqueBreakpoints (summary r))\<rparr>\<rparr>"
  let ?d = "?d0\<lparr>complexity := Some (calculateComplexity ?d0)\<rparr>"
  have e: "extractMediaQueries origin sheets = Inr ?d"
    using r by (simp add: extractMediaQueries_def page_evaluate_def)
  have m: "mediaQueries ?d =
         concat (map (sheet_records origin)
           (filter (\<lambda>sheet. \<not> isl (read_rules sheet)) sheets))"
    using sheets_loop_records [OF r] by (simp add: readable_records empty_results_def)
  have t: "totalMediaQueries (summary ?d) = length (mediaQueries ?d)"
    using sheets_loop_records [OF r] by (simp add: empty_results_def)
  have "sheets_loop origin empty_results (filter (\<lambda>sheet. \<not> isl (read_rules sheet)) sheets) = Inr r"
    using sheets_loop_skip [of origin empty_results sheets] r by simp
  then have f: "extractMediaQueries origin (filter (\<lambda>sheet. \<not> isl (read_rules sheet)) sheets) = Inr ?d"
    by (simp add: extractMediaQueries_def page_evaluate_def)
  from e m t f show ?thesis by blast
qed

text \<open>
  The scenario of the specification: of two stylesheets the second throws when its rules
  are read; the result holds the one record of the first stylesheet.
\<close>

theorem inaccessible_sheets_skipped_witness:
  "isl (read_rules blocked_sheet) \<and> \<not> isl (read_rules navbar_sheet) \<and>
   extractMediaQueries example_origin [navbar_sheet, blocked_sheet] = Inr navbar_data \<and>
   mediaQueries navbar_data = [navbar_query] \<and>
   totalMediaQueries (summary navbar_data) = 1 \<and>
   extractMediaQueries example_origin [navbar_sheet] = Inr navbar_data"
proof -
  have b: "isl (read_rules blocked_sheet)" by code_simp
  have n: "\<not> isl (read_rules navbar_sheet)" by code_simp
  have c: "concat (map (sheet_records example_origin) [navbar_sheet]) = [navbar_query]"
    by code_simp
  have h: "extractMediaQueries example_origin [navbar_sheet] = Inr navbar_data"
    by code_simp
  from inaccessible_sheets_skipped [of example_origin "[navbar_sheet, blocked_sheet]"]
  obtain d where d: "extractMediaQueries example_origin [navbar_sheet, blocked_sheet] = Inr d"
    and m: "mediaQueries d =
         concat (map (sheet_records example_origin)
           (filter (\<lambda>sheet. \<not> isl (read_rules sheet)) [navbar_sheet, blocked_sheet]))"
    and t: "totalMediaQueries (summary d) = length (mediaQueries d)"
    and f: "extractMediaQueries example_origin
              (filter (\<lambda>sheet. \<not> isl (read_rules sheet)) [navbar_sheet, blocked_sheet]) = Inr d"
    by blast
  have eq: "d = navbar_data" using f h b n by simp
  have "mediaQueries d = [navbar_query]" using m b n c by simp
  with d t h b n eq show ?thesis by simp
qed

subsection \<open>Invariants of the walk\<close>

lemma foldl_rule_step_inv:
  assumes "\<And>r rule. I r \<Longrightarrow> I (rule_step r rule)" and "I r"
  shows "I (foldl rule_step r rs)"
  using assms(2) by (induction rs arbitrary: r) (simp_all add: assms(1))

lemma try_sheet_inv:
  assumes step: "\<And>r rule. I r \<Longrightarrow> I (rule_step r rule)" and "I r"
    and "try_sheet origin r sheet = Inr r1"
  shows "I r1"
  using assms(2,3) foldl_rule_step_inv [of I r, OF step]
  by (auto simp: try_sheet_def sheet_body_def split: sum.splits if_splits option.splits)

lemma sheets_loop_inv:
  assumes step: "\<And>r rule. I r \<Longrightarrow> I (rule_step r rule)" and "I r"
    and "sheets_loop origin r sheets = Inr r1"
  shows "I r1"
  using assms(2,3)
proof (induction sheets arbitrary: r)
  case Nil
  then show ?case by simp
next
  case (Cons sheet sheets)
  obtain r2 where r2: "try_sheet origin r sheet = Inr r2"
    using try_sheet_Inr by blast
  have "I r2" using try_sheet_inv [of I, OF step Cons.prems(1) r2] .
  moreover have "sheets_loop origin r2 sheets = Inr r1"
    using Cons.prems(2) r2 by simp
  ultimately show ?case using Cons.IH by blast
qed

lemma page_evaluate_loop:
  "page_evaluate origin sheets = Inr d \<Longrightarrow>
   \<exists>r. sheets_loop origin empty_results sheets = Inr r \<and> mediaQueries d = mediaQueries r
     \<and> uniqueBreakpoints (summary d) = sort (uniqueBreakpoints (summary r))
     \<and> totalMediaQueries (summary d) = totalMediaQueries (summary r)
     \<and> breakpoints d = breakpoints r"
  by (auto simp: page_evaluate_def split: sum.splits)

lemma extract_page:
  "extractMediaQueries origin sheets = Inr d \<Longrightarrow>
   \<exists>d0. page_evaluate origin sheets = Inr d0 \<and> d = d0\<lparr>complexity := Some (calculateComplexity d0)\<rparr>"
  by (auto simp: extractMediaQueries_def split: sum.splits)

lemma parse_media_rule_classified: "well_classified (parse_media_rule t inner)"
  by (simp add: parse_media_rule_def well_classified_def Let_def split: option.split)

lemma rule_step_classified:
  "list_all well_classified (mediaQueries r) \<Longrightarrow>
   list_all well_classified (mediaQueries (rule_step r rule))"
  by (cases rule) (simp_all add: Let_def parse_media_rule_classified)

text \<open>
  Claim C7. In every record of an extraction result the breakpoint is null exactly when
  the type is null, and the type is null, \<open>min-width\<close> or \<open>max-width\<close>.
\<close>

theorem extracted_records_classified:
  assumes "extractMediaQueries origin sheets = Inr d"
  shows "\<forall>mq \<in> set (mediaQueries d).
           (breakpoint mq = None) = (type mq = None) \<and>
           (type mq = None \<or> type mq = Some ''min-width'' \<or> type mq = Some ''max-width'')"
proof -
  obtain d0 where d0: "page_evaluate origin sheets = Inr d0"
    and d: "mediaQueries d = mediaQueries d0"
    using extract_page [OF assms] by auto
  obtain r where r: "sheets_loop origin empty_results sheets = Inr r"
    and m: "mediaQueries d0 = mediaQueries r"
    using page_evaluate_loop [OF d0] by auto
  have "list_all well_classified (mediaQueries r)"
    by (rule sheets_loop_inv [where I = "\<lambda>r. list_all well_classified (mediaQueries r)", OF _ _ r])
       (simp_all add: rule_step_classified empty_results_def)
  then show ?thesis
    by (simp add: d m list_all_iff well_classified_def)
qed

theorem extracted_records_classified_witness:
  "extractMediaQueries example_origin [navbar_sheet] = Inr navbar_data \<and>
   navbar_query \<in> set (mediaQueries navbar_data) \<and>
   (breakpoint navbar_query = None) = (type navbar_query = None) \<and>
   (type navbar_query = None \<or> type navbar_query = Some ''min-width'' \<or>
    type navbar_query = Some ''max-width'')"
proof -
  have h: "extractMediaQueries example_origin [navbar_sheet] = Inr navbar_data"
    by code_simp
  have m: "navbar_query \<in> set (mediaQueries navbar_data)"
    by code_simp
  from extracted_records_classified [OF h] m h show ?thesis by blast
qed

lemma set_add_set: "set (set_add x xs) = insert x (set xs)"
  by (auto simp: set_add_def)

lemma set_add_distinct: "distinct xs \<Longrightarrow> distinct (set_add x xs)"
  by (simp add: set_add_def)

lemma breakpoint_values_snoc:
  "breakpoint_values (mqs @ [mq]) =
     breakpoint_values mqs @ (case breakpoint mq of None \<Rightarrow> [] | Some b \<Rightarrow> [b])"
  by (simp add: breakpoint_values_def List.map_filter_def split: option.split)

lemma rule_step_unique: "unique_inv r \<Longrightarrow> unique_inv (rule_step r rule)"
  by (cases rule)
     (auto simp: unique_inv_def Let_def breakpoint_values_snoc set_add_set set_add_distinct
           split: option.splits)

lemma page_unique:
  assumes "page_evaluate origin sheets = Inr d"
  shows "length (uniqueBreakpoints (summary d)) = card (set (breakpoint_values (mediaQueries d)))"
proof -
  obtain r where r: "sheets_loop origin empty_results sheets = Inr r"
    and m: "mediaQueries d = mediaQueries r"
    and u: "uniqueBreakpoints (summary d) = sort (uniqueBreakpoints (summary r))"
    using page_evaluate_loop [OF assms] by auto
  have e: "unique_inv empty_results"
    by (simp add: unique_inv_def empty_results_def breakpoint_values_def List.map_filter_def)
  have "unique_inv r"
    by (rule sheets_loop_inv [where I = unique_inv, OF _ _ r])
       (simp_all add: rule_step_unique e)
  then show ?thesis
    by (simp add: u m unique_inv_def distinct_card [symmetric])
qed

text \<open>
  Claim C2, as amended. The scorer is applied to what the page evaluation returns. On
  such data the field \<open>breakpointCount\<close>, which is also the metric of the 25-point
  sub-score, is the number of distinct breakpoint pixel values among the records: a
  min-width record and a max-width record with the same pixel value count once.
\<close>

theorem breakpointCount_distinct_values:
  assumes "page_evaluate origin sheets = Inr d"
  shows "breakpointCount (breakdown (calculateComplexity d)) =
           card (set (breakpoint_values (mediaQueries d))) \<and>
         score (calculateComplexity d) =
           breakpointScore (card (set (breakpoint_values (mediaQueries d))))
           + propertyScore (avgPropertiesPerBreakpoint d)
           + nestedScore (nestedOrCombinedCount d)
           + overlapScore (overlapCount d)
           + queryCountScore (totalMediaQueries (summary d))"
  using page_unique [OF assms] by (simp add: calculateComplexity_def Let_def)

theorem breakpointCount_distinct_values_witness:
  "page_evaluate example_origin [same_pixel_sheet] = Inr same_pixel_data \<and>
   breakpointCount (breakdown (calculateComplexity same_pixel_data)) =
     card (set (breakpoint_values (mediaQueries same_pixel_data))) \<and>
   score (calculateComplexity same_pixel_data) =
     breakpointScore (card (set (breakpoint_values (mediaQueries same_pixel_data))))
     + propertyScore (avgPropertiesPerBreakpoint same_pixel_data)
     + nestedScore (nestedOrCombinedCount same_pixel_data)
     + overlapScore (overlapCount same_pixel_data)
     + queryCountScore (totalMediaQueries (summary same_pixel_data))"
proof -
  have h: "page_evaluate example_origin [same_pixel_sheet] = Inr same_pixel_data"
    by code_simp
  from breakpointCount_distinct_values [OF h] h show ?thesis by blast
qed

text \<open>
  Claim C2 as stated fails on the page with the media rules \<^verbatim>\<open>(min-width: 768px)\<close>
  and \<^verbatim>\<open>(max-width: 768px)\<close>: there are two distinct (type, breakpoint) pairs, and the
  field is 1.
\<close>

theorem breakpointCount_counterexample:
  "page_evaluate example_origin [same_pixel_sheet] = Inr same_pixel_data \<and>
   length (remdups (breakpoint_pairs (mediaQueries same_pixel_data))) = 2 \<and>
   breakpointCount (breakdown (calculateComplexity same_pixel_data)) = 1"
  by code_simp

text \<open>
  Claim C4 does not hold of the code. The page whose one media rule is
  \<^verbatim>\<open>(min-width: 0px)\<close> yields a record with breakpoint 0 and type \<open>min-width\<close>, and
  0 is entered among the unique breakpoints, but the grouping step tests the breakpoint
  for truthiness, so the record is in no bucket: the breakpoint map stays empty.
\<close>

theorem zero_breakpoint_not_grouped:
  "page_evaluate example_origin [zero_sheet] =
     Inr \<lparr>breakpoints = [], mediaQueries = [zero_query],
          summary =
            \<lparr>totalMediaQueries = 1, uniqueBreakpoints = [0], mostCommonBreakpoints = []\<rparr>,
          complexity = None\<rparr> \<and>
   breakpoint zero_query = Some 0 \<and>
   template_key (type zero_query) (breakpoint zero_query) = ''min-width-0''"
  by code_simp

section \<open>The property pass and the bucket \<open>other\<close>\<close>

lemma add_rule_fst: "fst (foldl (add_rule key) st rs) = fst st + sum_list (map propCount rs)"
  by (induction rs arbitrary: st) (simp_all add: add_rule_def)

lemma add_rule_map_of:
  "map_of (snd st) key = Some c \<Longrightarrow>
   map_of (snd (foldl (add_rule key) st rs)) k =
     (if k = key then Some (c + sum_list (map propCount rs)) else map_of (snd st) k)"
proof (induction rs arbitrary: st c)
  case Nil
  then show ?case by simp
next
  case (Cons rule rs)
  have "map_of (snd (add_rule key st rule)) key = Some (c + propCount rule)"
    using Cons.prems by (simp add: add_rule_def update_conv' get_count_def)
  from Cons.IH [OF this] show ?case
    by (simp add: add_rule_def update_conv' add.assoc)
qed

lemma add_rule_distinct:
  "distinct (map fst (snd st)) \<Longrightarrow> distinct (map fst (snd (foldl (add_rule key) st rs)))"
  by (induction rs arbitrary: st) (simp_all add: add_rule_def distinct_update)

lemma init_bucket_map_of:
  "map_of (init_bucket key counts) k =
     (if k = key then Some (get_count counts key) else map_of counts k)"
  by (auto simp: init_bucket_def get_count_def update_conv' split: option.splits)

lemma init_bucket_distinct:
  "distinct (map fst counts) \<Longrightarrow> distinct (map fst (init_bucket key counts))"
  by (simp add: init_bucket_def distinct_update)

lemma add_query_fst: "fst (add_query st mq) = fst st + query_props mq"
  by (simp add: add_query_def add_rule_fst query_props_def)

lemma add_query_map_of:
  "map_of (snd (add_query st mq)) k =
     (if k = bucket_key mq then Some (get_count (snd st) (bucket_key mq) + query_props mq)
      else map_of (snd st) k)"
proof -
  let ?k = "bucket_key mq"
  let ?st = "(fst st, init_bucket ?k (snd st))"
  have "map_of (snd ?st) ?k = Some (get_count (snd st) ?k)"
    by (simp add: init_bucket_map_of)
  from add_rule_map_of [OF this, of "rules mq" k] show ?thesis
    by (simp add: add_query_def query_props_def init_bucket_map_of)
qed

lemma add_query_get_count:
  "get_count (snd (add_query st mq)) k =
     get_count (snd st) k + (if k = bucket_key mq then query_props mq else 0)"
  by (simp add: get_count_def add_query_map_of)

lemma add_query_distinct:
  "distinct (map fst (snd st)) \<Longrightarrow> distinct (map fst (snd (add_query st mq)))"
  by (simp add: add_query_def add_rule_distinct init_bucket_distinct)

lemma pass_fst: "fst (foldl add_query st mqs) = fst st + sum_list (map query_props mqs)"
  by (induction mqs arbitrary: st) (simp_all add: add_query_fst)

lemma pass_distinct:
  "distinct (map fst (snd st)) \<Longrightarrow> distinct (map fst (snd (foldl add_query st mqs)))"
  by (induction mqs arbitrary: st) (simp_all add: add_query_distinct)

lemma pass_get_count:
  "get_count (snd (foldl add_query st mqs)) k =
     get_count (snd st) k + sum_list (map query_props (filter (\<lambda>mq. bucket_key mq = k) mqs))"
  by (induction mqs arbitrary: st) (simp_all add: add_query_get_count)

lemma add_query_present:
  "map_of (snd st) k \<noteq> None \<Longrightarrow> map_of (snd (add_query st mq)) k \<noteq> None"
  by (simp add: add_query_map_of)

lemma pass_keeps:
  "map_of (snd st) k \<noteq> None \<Longrightarrow> map_of (snd (foldl add_query st mqs)) k \<noteq> None"
proof (induction mqs arbitrary: st)
  case Nil
  then show ?case by simp
next
  case (Cons mq mqs)
  from add_query_present [OF Cons.prems]
  have "map_of (snd (add_query st mq)) k \<noteq> None" .
  from Cons.IH [OF this] show ?case by simp
qed

lemma pass_present:
  "k \<in> bucket_key ` set mqs \<Longrightarrow> map_of (snd (foldl add_query st mqs)) k \<noteq> None"
proof (induction mqs arbitrary: st)
  case Nil
  then show ?case by simp
next
  case (Cons mq mqs)
  show ?case
  proof (cases "k = bucket_key mq")
    case True
    then have "map_of (snd (add_query st mq)) k \<noteq> None"
      by (simp add: add_query_map_of)
    then show ?thesis by (simp add: pass_keeps)
  next
    case False
    then have "k \<in> bucket_key ` set mqs" using Cons.prems by auto
    then show ?thesis using Cons.IH by simp
  qed
qed

lemma pass_map_of:
  assumes "k \<in> bucket_key ` set mqs"
  shows "map_of (snd (foldl add_query st mqs)) k =
     Some (get_count (snd st) k
           + sum_list (map query_props (filter (\<lambda>mq. bucket_key mq = k) mqs)))"
  using pass_present [OF assms, of st] pass_get_count [of st mqs k]
  by (auto simp: get_count_def split: option.splits)

lemma problem_entry_inj: "inj problem_entry"
  by (auto simp: inj_def problem_entry_def prod_eq_iff)

lemma other_in_problems:
  "(\<lparr>pb_breakpoint = ''other'', propertyCount = c,
      reason = ''High number of property changes - may indicate major layout shift''\<rparr>
      \<in> set (problemBreakpoints (calculateComplexity d))) =
   ((''other'', c) \<in> set (breakpointPropertyCounts d) \<and>
    is_problem (avgPropertiesPerBreakpoint d) (''other'', c))"
  using inj_image_mem_iff [OF problem_entry_inj, of "(''other'', c)"]
  by (simp add: calculateComplexity_def Let_def problem_entry_def)

text \<open>
  Claim C10. In the scorer every record with a null breakpoint has the bucket key
  \<open>other\<close>. The properties of all records, those included, make up the numerator of the
  mean, whose denominator is the number of distinct breakpoint pixel values. The one
  bucket \<open>other\<close> holds the properties of all the records keyed so, and it is listed
  among the problem breakpoints, under the key \<open>other\<close> and with that count, exactly
  when the count exceeds both 1.5 times the mean and 20.
\<close>

theorem other_bucket_pools_null_breakpoints:
  assumes ex: "page_evaluate origin sheets = Inr d"
    and mq0: "mq0 \<in> set (mediaQueries d)"
    and null: "breakpoint mq0 = None"
  shows "bucket_key mq0 = ''other'' \<and>
         totalProperties d = sum_list (map query_props (mediaQueries d)) \<and>
         avgPropertiesPerBreakpoint d =
           (if card (set (breakpoint_values (mediaQueries d))) > 0
            then of_nat (sum_list (map query_props (mediaQueries d)))
                   / of_nat (card (set (breakpoint_values (mediaQueries d))))
            else 0) \<and>
         map_of (breakpointPropertyCounts d) ''other'' = Some (other_props d) \<and>
         ((\<lparr>pb_breakpoint = ''other'', propertyCount = c,
             reason = ''High number of property changes - may indicate major layout shift''\<rparr>
             \<in> set (problemBreakpoints (calculateComplexity d))) =
          (c = other_props d \<and> of_nat c > avgPropertiesPerBreakpoint d * (3 / 2) \<and> c > 20))"
proof -
  have k0: "bucket_key mq0 = ''other''"
    using null by (simp add: bucket_key_def truthy_num_def)
  have tot: "totalProperties d = sum_list (map query_props (mediaQueries d))"
    by (simp add: totalProperties_def property_pass_def pass_fst)
  have avg: "avgPropertiesPerBreakpoint d =
           (if card (set (breakpoint_values (mediaQueries d))) > 0
            then of_nat (sum_list (map query_props (mediaQueries d)))
                   / of_nat (card (set (breakpoint_values (mediaQueries d))))
            else 0)"
    using page_unique [OF ex] by (simp add: avgPropertiesPerBreakpoint_def Let_def tot)
  have "''other'' \<in> bucket_key ` set (mediaQueries d)"
    using mq0 k0 by force
  from pass_map_of [OF this, of "(0, [])"]
  have m: "map_of (breakpointPropertyCounts d) ''other'' = Some (other_props d)"
    by (simp add: breakpointPropertyCounts_def property_pass_def get_count_def
        other_props_def other_queries_def)
  have dist: "distinct (map fst (breakpointPropertyCounts d))"
    by (simp add: breakpointPropertyCounts_def property_pass_def pass_distinct)
  have "((''other'', c) \<in> set (breakpointPropertyCounts d)) =
      (map_of (breakpointPropertyCounts d) ''other'' = Some c)"
    using map_of_eq_Some_iff [OF dist] by simp
  then have mem: "((''other'', c) \<in> set (breakpointPropertyCounts d)) = (c = other_props d)"
    unfolding m by auto
  have pb: "(\<lparr>pb_breakpoint = ''other'', propertyCount = c,
             reason = ''High number of property changes - may indicate major layout shift''\<rparr>
             \<in> set (problemBreakpoints (calculateComplexity d))) =
          (c = other_props d \<and> of_nat c > avgPropertiesPerBreakpoint d * (3 / 2) \<and> c > 20)"
    unfolding other_in_problems mem by (simp add: is_problem_def)
  from k0 tot avg m pb show ?thesis by blast
qed

theorem other_bucket_pools_null_breakpoints_witness:
  "page_evaluate example_origin [print_sheet] = Inr print_data \<and>
   print_query \<in> set (mediaQueries print_data) \<and>
   breakpoint print_query = None \<and>
   bucket_key print_query = ''other'' \<and>
   totalProperties print_data = 22 \<and>
   avgPropertiesPerBreakpoint print_data = 11 \<and>
   map_of (breakpointPropertyCounts print_data) ''other'' = Some 21 \<and>
   \<lparr>pb_breakpoint = ''other'', propertyCount = 21,
     reason = ''High number of property changes - may indicate major layout shift''\<rparr>
     \<in> set (problemBreakpoints (calculateComplexity print_data))"
proof -
  have h1: "page_evaluate example_origin [print_sheet] = Inr print_data"
    by code_simp
  have h2: "print_query \<in> set (mediaQueries print_data)"
    by code_simp
  have h3: "breakpoint print_query = None"
    by code_simp
  have o: "other_props print_data = 21"
    by code_simp
  have a: "avgPropertiesPerBreakpoint print_data = 11"
    by code_simp
  have s: "sum_list (map query_props (mediaQueries print_data)) = 22"
    by code_simp
  from other_bucket_pools_null_breakpoints [OF h1 h2 h3, of 21] h1 h2 h3
  show ?thesis unfolding o a s by simp
qed

end
